theory Spec2Isabelle
  imports Complex_Main
begin

section \<open>The metrics exporter of the mongo backup (scripts/metrics-exporter.py)\<close>

text \<open>
  The exporter is one request handler, \<^verbatim>\<open>MetricsHandler\<close>, with the method
  \<^verbatim>\<open>do_GET\<close> and the static method \<^verbatim>\<open>build_metrics\<close>. Everything it
  reads from outside is an argument of the model: the clock (\<open>now\<close>), the state file,
  the request, and the three library functions whose answer depends on the locale or on
  Unicode tables (\<open>pylib\<close>). The parts of the standard library that decide what a
  request is answered (\<^verbatim>\<open>Path.exists\<close> of pathlib, \<^verbatim>\<open>parse_request\<close> and
  \<^verbatim>\<open>handle_one_request\<close> of http.server) are written out from CPython 3.11.
\<close>

subsection \<open>Python values\<close>

text \<open>
  A Python \<^verbatim>\<open>str\<close> is a sequence of code points; a lone surrogate (U+D800 to
  U+DFFF) is a legal element of it, and \<^verbatim>\<open>json.loads\<close> produces one from an
  escape such as \<^verbatim>\<open>\ud800\<close>. Bytes are numbers below 256.
\<close>

type_synonym pystr = "nat list"
type_synonym byte = nat

definition u :: "string \<Rightarrow> pystr" where
  "u s = map of_char s"

datatype error =
  AttributeError | TypeError | ValueError | OverflowError | KeyError | IndexError
  | OSError | PermissionError | JSONDecodeError | UnicodeEncodeError

text \<open>
  A Python \<^verbatim>\<open>float\<close> is a rational number, the negative zero, an infinity or a
  NaN.
\<close>

datatype pyfloat = Finite rat | NegZero | PosInf | NegInf | NaN

text \<open>
  What \<^verbatim>\<open>json.loads\<close> returns. A dict is the list of its items, each key once.
\<close>

datatype json =
  JNull | JBool bool | JInt int | JFloat pyfloat | JStr pystr
  | JList "json list" | JDict "(pystr \<times> json) list"

text \<open>Truth value testing, as \<^verbatim>\<open>if x\<close> and \<^verbatim>\<open>x or y\<close> do it.\<close>

fun truthy :: "json \<Rightarrow> bool" where
  "truthy JNull = False"
| "truthy (JBool b) = b"
| "truthy (JInt i) = (i \<noteq> 0)"
| "truthy (JFloat (Finite r)) = (r \<noteq> 0)"
| "truthy (JFloat NegZero) = False"
| "truthy (JFloat _) = True"
| "truthy (JStr s) = (s \<noteq> [])"
| "truthy (JList xs) = (xs \<noteq> [])"
| "truthy (JDict kvs) = (kvs \<noteq> [])"

text \<open>
  The library functions that are taken as they are:
  \<^item> \<open>epoch_of s\<close> is \<^verbatim>\<open>int(time.mktime(time.strptime(s, "%Y%m%d_%H%M%S")))\<close>,
    which depends on the local time zone and raises on a string of another shape;
  \<^item> \<open>int_of_str s\<close> is \<^verbatim>\<open>int(s)\<close> for a \<^verbatim>\<open>str\<close>;
  \<^item> \<open>repr_of v\<close> is \<^verbatim>\<open>str(v)\<close> for a float, a list or a dict.
\<close>

record pylib =
  epoch_of :: "pystr \<Rightarrow> error + int"
  int_of_str :: "pystr \<Rightarrow> error + int"
  repr_of :: "json \<Rightarrow> pystr"

text \<open>\<^verbatim>\<open>int(v)\<close>: a float is truncated towards zero.\<close>

fun py_int :: "pylib \<Rightarrow> json \<Rightarrow> error + int" where
  "py_int L JNull = Inl TypeError"
| "py_int L (JBool b) = Inr (if b then 1 else 0)"
| "py_int L (JInt i) = Inr i"
| "py_int L (JFloat (Finite r)) = Inr (if 0 \<le> r then \<lfloor>r\<rfloor> else \<lceil>r\<rceil>)"
| "py_int L (JFloat NegZero) = Inr 0"
| "py_int L (JFloat PosInf) = Inl OverflowError"
| "py_int L (JFloat NegInf) = Inl OverflowError"
| "py_int L (JFloat NaN) = Inl ValueError"
| "py_int L (JStr s) = int_of_str L s"
| "py_int L (JList xs) = Inl TypeError"
| "py_int L (JDict kvs) = Inl TypeError"

text \<open>The decimal digits of a number, as \<^verbatim>\<open>str\<close> and an f-string write an int.\<close>

fun digits :: "nat \<Rightarrow> pystr" where
  "digits n = (if n < 10 then [48 + n] else digits (n div 10) @ [48 + n mod 10])"

declare digits.simps [simp del]

definition str_int :: "int \<Rightarrow> pystr" where
  "str_int i = (if i < 0 then 45 # digits (nat (- i)) else digits (nat i))"

text \<open>\<^verbatim>\<open>str(v)\<close>, which is what \<^verbatim>\<open>{v}\<close> in an f-string writes.\<close>

fun py_str :: "pylib \<Rightarrow> json \<Rightarrow> pystr" where
  "py_str L (JStr s) = s"
| "py_str L JNull = u ''None''"
| "py_str L (JBool b) = (if b then u ''True'' else u ''False'')"
| "py_str L (JInt i) = str_int i"
| "py_str L v = repr_of L v"

text \<open>
  \<^verbatim>\<open>data.get(key, default)\<close>: only a dict has the method; on any other value the
  attribute lookup raises.
\<close>

fun dict_get :: "json \<Rightarrow> pystr \<Rightarrow> json \<Rightarrow> error + json" where
  "dict_get (JDict kvs) k d = Inr (case map_of kvs k of None \<Rightarrow> d | Some v \<Rightarrow> v)"
| "dict_get _ k d = Inl AttributeError"

text \<open>\<^verbatim>\<open>data[key]\<close> on a dict.\<close>

fun dict_item :: "json \<Rightarrow> pystr \<Rightarrow> error + json" where
  "dict_item (JDict kvs) k = (case map_of kvs k of None \<Rightarrow> Inl KeyError | Some v \<Rightarrow> Inr v)"
| "dict_item _ k = Inl TypeError"

text \<open>
  \<^verbatim>\<open>time.strptime\<close> takes a \<^verbatim>\<open>str\<close> and raises TypeError on anything else.
\<close>

fun strptime_mktime :: "pylib \<Rightarrow> json \<Rightarrow> error + int" where
  "strptime_mktime L (JStr s) = epoch_of L s"
| "strptime_mktime L _ = Inl TypeError"

subsection \<open>The state file\<close>

text \<open>
  \<^verbatim>\<open>Path.exists\<close> calls \<^verbatim>\<open>stat\<close>, answers False when that fails with ENOENT,
  ENOTDIR, EBADF or ELOOP, and raises every other \<^verbatim>\<open>OSError\<close> again: EACCES, for
  a path under a directory that the process may not search, is a PermissionError.
  \<^item> \<open>StatRaises e\<close>: \<^verbatim>\<open>STATE_FILE.exists()\<close> raises \<open>e\<close>.
  \<^item> \<open>Missing\<close>: it answers False.
  \<^item> \<open>Existing r\<close>: it answers True, and \<open>r\<close> is the outcome of
    \<^verbatim>\<open>json.loads(STATE_FILE.read_text())\<close>: the exception of a file that cannot be
    read or decoded or is not JSON, or the value parsed.
\<close>

datatype state_file = StatRaises error | Missing | Existing "error + json"

subsection \<open>build_metrics\<close>

text \<open>The local variables that the \<^verbatim>\<open>try\<close> block assigns.\<close>

record locals =
  last_success :: int
  last_size :: int
  total :: int
  last_failure :: json

definition init_locals :: locals where
  "init_locals = \<lparr>last_success = 0, last_size = 0, total = 0, last_failure = JStr []\<rparr>"

text \<open>
  The four statements of the \<^verbatim>\<open>try\<close> block after \<open>data\<close> is loaded. Each one
  either raises, and then the variables are as the statements before it left them, or
  assigns its variable.
\<close>

definition stmt_last_success :: "pylib \<Rightarrow> json \<Rightarrow> locals \<Rightarrow> error + locals" where
  "stmt_last_success L data s =
     (case dict_get data (u ''last_success'') JNull of
        Inl e \<Rightarrow> Inl e
      | Inr c \<Rightarrow>
          if truthy c then
            (case dict_item data (u ''last_success'') of
               Inl e \<Rightarrow> Inl e
             | Inr v \<Rightarrow>
                 (case strptime_mktime L v of
                    Inl e \<Rightarrow> Inl e
                  | Inr t \<Rightarrow> Inr (s\<lparr>last_success := t\<rparr>)))
          else Inr s)"

definition stmt_last_size :: "pylib \<Rightarrow> json \<Rightarrow> locals \<Rightarrow> error + locals" where
  "stmt_last_size L data s =
     (case dict_get data (u ''last_size_bytes'') (JInt 0) of
        Inl e \<Rightarrow> Inl e
      | Inr v \<Rightarrow>
          (case py_int L v of
             Inl e \<Rightarrow> Inl e
           | Inr n \<Rightarrow> Inr (s\<lparr>last_size := n\<rparr>)))"

definition stmt_total :: "pylib \<Rightarrow> json \<Rightarrow> locals \<Rightarrow> error + locals" where
  "stmt_total L data s =
     (case dict_get data (u ''total_backups'') (JInt 0) of
        Inl e \<Rightarrow> Inl e
      | Inr v \<Rightarrow>
          (case py_int L v of
             Inl e \<Rightarrow> Inl e
           | Inr n \<Rightarrow> Inr (s\<lparr>total := n\<rparr>)))"

definition stmt_last_failure :: "json \<Rightarrow> locals \<Rightarrow> error + locals" where
  "stmt_last_failure data s =
     (case dict_get data (u ''last_failure'') (JStr []) of
        Inl e \<Rightarrow> Inl e
      | Inr v \<Rightarrow> Inr (s\<lparr>last_failure := (if truthy v then v else JStr [])\<rparr>))"

text \<open>
  The \<^verbatim>\<open>try\<close> block: the variables when it ends, and the exception that ended it,
  if one did.
\<close>

definition try_block :: "pylib \<Rightarrow> error + json \<Rightarrow> locals \<Rightarrow> locals \<times> error option" where
  "try_block L loaded s0 =
     (case loaded of
        Inl e \<Rightarrow> (s0, Some e)
      | Inr data \<Rightarrow>
          (case stmt_last_success L data s0 of
             Inl e \<Rightarrow> (s0, Some e)
           | Inr s1 \<Rightarrow>
               (case stmt_last_size L data s1 of
                  Inl e \<Rightarrow> (s1, Some e)
                | Inr s2 \<Rightarrow>
                    (case stmt_total L data s2 of
                       Inl e \<Rightarrow> (s2, Some e)
                     | Inr s3 \<Rightarrow>
                         (case stmt_last_failure data s3 of
                            Inl e \<Rightarrow> (s3, Some e)
                          | Inr s4 \<Rightarrow> (s4, None))))))"

text \<open>
  The variables when the list of lines is built. The test \<^verbatim>\<open>STATE_FILE.exists()\<close>
  is outside the \<^verbatim>\<open>try\<close> block, so its exception leaves \<open>build_metrics\<close>;
  \<^verbatim>\<open>except Exception\<close> assigns \<open>last_failure\<close> and nothing else.
\<close>

definition read_state :: "pylib \<Rightarrow> state_file \<Rightarrow> error + locals" where
  "read_state L sf =
     (case sf of
        StatRaises e \<Rightarrow> Inl e
      | Missing \<Rightarrow> Inr init_locals
      | Existing loaded \<Rightarrow>
          (case try_block L loaded init_locals of
             (s, None) \<Rightarrow> Inr s
           | (s, Some e) \<Rightarrow> Inr (s\<lparr>last_failure := JStr (u ''state_parse_error'')\<rparr>)))"

text \<open>The five f-strings.\<close>

definition format_metrics :: "pylib \<Rightarrow> int \<Rightarrow> locals \<Rightarrow> pystr list" where
  "format_metrics L now s =
     [u ''mongo_backup_last_success_timestamp '' @ str_int (last_success s),
      u ''mongo_backup_last_run_age_seconds ''
        @ str_int (if last_success s \<noteq> 0 then now - last_success s else 0),
      u ''mongo_backup_last_archive_bytes '' @ str_int (last_size s),
      u ''mongo_backup_total_runs '' @ str_int (total s),
      u ''mongo_backup_last_failure{message='' @ [34] @ py_str L (last_failure s) @ [34]
        @ u ''} '' @ str_int (if truthy (last_failure s) then 1 else 0)]"

text \<open>\<open>Inl e\<close>: the exception \<open>e\<close> leaves \<open>build_metrics\<close>.\<close>

definition build_metrics :: "pylib \<Rightarrow> int \<Rightarrow> state_file \<Rightarrow> error + pystr list" where
  "build_metrics L now sf =
     (case read_state L sf of
        Inl e \<Rightarrow> Inl e
      | Inr s \<Rightarrow> Inr (format_metrics L now s))"

subsection \<open>do_GET\<close>

text \<open>\<^verbatim>\<open>sep.join(xs)\<close>.\<close>

fun join :: "pystr \<Rightarrow> pystr list \<Rightarrow> pystr" where
  "join sep [] = []"
| "join sep [x] = x"
| "join sep (x # y # ys) = x @ sep @ join sep (y # ys)"

text \<open>
  \<^verbatim>\<open>s.encode("utf-8")\<close>: a surrogate has no encoding and raises. A number from
  0x110000 on is not a code point, and no \<^verbatim>\<open>str\<close> holds one.
\<close>

definition utf8_char :: "nat \<Rightarrow> error + byte list" where
  "utf8_char c =
     (if c < 0x80 then Inr [c]
      else if c < 0x800 then Inr [0xC0 + c div 64, 0x80 + c mod 64]
      else if 0xD800 \<le> c \<and> c \<le> 0xDFFF then Inl UnicodeEncodeError
      else if c < 0x10000 then
        Inr [0xE0 + c div 4096, 0x80 + (c div 64) mod 64, 0x80 + c mod 64]
      else if c < 0x110000 then
        Inr [0xF0 + c div 262144, 0x80 + (c div 4096) mod 64,
             0x80 + (c div 64) mod 64, 0x80 + c mod 64]
      else Inl UnicodeEncodeError)"

fun encode_utf8 :: "pystr \<Rightarrow> error + byte list" where
  "encode_utf8 [] = Inr []"
| "encode_utf8 (c # cs) =
     (case utf8_char c of
        Inl e \<Rightarrow> Inl e
      | Inr bs \<Rightarrow> (case encode_utf8 cs of Inl e \<Rightarrow> Inl e | Inr rest \<Rightarrow> Inr (bs @ rest)))"

text \<open>
  What the handler sends: \<open>ErrorPage code\<close> is \<^verbatim>\<open>send_error(code)\<close>, whose headers
  and body the base class writes; \<open>Response\<close> is \<^verbatim>\<open>send_response\<close>, the headers
  given to \<^verbatim>\<open>send_header\<close> in their order, and the bytes written to \<open>wfile\<close>.
\<close>

datatype response = ErrorPage nat | Response nat "(pystr \<times> pystr) list" "byte list"

fun status :: "response \<Rightarrow> nat" where
  "status (ErrorPage c) = c"
| "status (Response c hs b) = c"

fun headers :: "response \<Rightarrow> (pystr \<times> pystr) list" where
  "headers (ErrorPage c) = []"
| "headers (Response c hs b) = hs"

fun body :: "response \<Rightarrow> byte list" where
  "body (ErrorPage c) = []"
| "body (Response c hs b) = b"

text \<open>
  \<open>do_GET\<close>, where \<open>path\<close> is \<^verbatim>\<open>self.path\<close>. \<open>Inl e\<close>: the exception left the
  method before anything was sent.
\<close>

definition do_GET :: "pylib \<Rightarrow> int \<Rightarrow> state_file \<Rightarrow> pystr \<Rightarrow> error + response" where
  "do_GET L now sf path =
     (if path \<notin> set [u ''/metrics'', u ''/''] then Inr (ErrorPage 404)
      else
        (case build_metrics L now sf of
           Inl e \<Rightarrow> Inl e
         | Inr metrics \<Rightarrow>
             (case encode_utf8 (join [10] metrics) of
                Inl e \<Rightarrow> Inl e
              | Inr payload \<Rightarrow>
                  Inr (Response 200
                        [(u ''Content-Type'', u ''text/plain; version=0.0.4''),
                         (u ''Content-Length'', str_int (int (length payload)))]
                        payload))))"

subsection \<open>The base class: parse_request and handle_one_request\<close>

text \<open>
  What the base class, \<^verbatim>\<open>BaseHTTPRequestHandler\<close>, reads of a request:
  \<^item> \<open>line_too_long\<close>: the request line has more than 65536 bytes;
  \<^item> \<open>words\<close>: \<^verbatim>\<open>requestline.split()\<close>, the words of the request line, which is
    decoded as ISO-8859-1, so that every character is below 256;
  \<^item> \<open>headers_refused\<close>: \<^verbatim>\<open>http.client.parse_headers\<close> raises (a header line too
    long, or too many headers).
\<close>

record request =
  line_too_long :: bool
  words :: "pystr list"
  headers_refused :: bool

definition startswith :: "pystr \<Rightarrow> pystr \<Rightarrow> bool" where
  "startswith s p = (take (length p) s = p)"

text \<open>\<^verbatim>\<open>s.split(sep, 1)[1]\<close>: what follows the first \<open>sep\<close>.\<close>

definition after_first :: "nat \<Rightarrow> pystr \<Rightarrow> error + pystr" where
  "after_first sep s =
     (case dropWhile (\<lambda>c. c \<noteq> sep) s of [] \<Rightarrow> Inl IndexError | c # rest \<Rightarrow> Inr rest)"

text \<open>\<^verbatim>\<open>s.split(sep)\<close> for a separator of one character.\<close>

fun split_char :: "nat \<Rightarrow> pystr \<Rightarrow> pystr list" where
  "split_char sep [] = [[]]"
| "split_char sep (c # cs) =
     (if c = sep then [] # split_char sep cs
      else (case split_char sep cs of [] \<Rightarrow> [[c]] | w # ws \<Rightarrow> (c # w) # ws))"

text \<open>
  \<^verbatim>\<open>s.isdigit()\<close> on characters below 256: the ten digits and the superscripts
  two, three and one. \<^verbatim>\<open>int(s)\<close> on such a string raises ValueError unless every
  character is one of the ten digits.
\<close>

definition isdigit :: "pystr \<Rightarrow> bool" where
  "isdigit s =
     (s \<noteq> [] \<and> list_all (\<lambda>c. (48 \<le> c \<and> c \<le> 57) \<or> c = 0xB2 \<or> c = 0xB3 \<or> c = 0xB9) s)"

definition int_of_digits :: "pystr \<Rightarrow> error + nat" where
  "int_of_digits s =
     (if s \<noteq> [] \<and> list_all (\<lambda>c. 48 \<le> c \<and> c \<le> 57) s
      then Inr (foldl (\<lambda>a c. 10 * a + (c - 48)) 0 s)
      else Inl ValueError)"

text \<open>The body of the \<^verbatim>\<open>try\<close> statement of \<open>parse_request\<close> on the last word.\<close>

definition parse_version :: "pystr \<Rightarrow> error + nat \<times> nat" where
  "parse_version version =
     (if \<not> startswith version (u ''HTTP/'') then Inl ValueError
      else
        (case after_first 47 version of
           Inl e \<Rightarrow> Inl e
         | Inr base_version_number \<Rightarrow>
             (let version_number = split_char 46 base_version_number in
              if length version_number \<noteq> 2 then Inl ValueError
              else if list_ex (\<lambda>component. \<not> isdigit component) version_number
                then Inl ValueError
              else if list_ex (\<lambda>component. 10 < length component) version_number
                then Inl ValueError
              else
                (case int_of_digits (version_number ! 0) of
                   Inl e \<Rightarrow> Inl e
                 | Inr major \<Rightarrow>
                     (case int_of_digits (version_number ! 1) of
                        Inl e \<Rightarrow> Inl e
                      | Inr minor \<Rightarrow> Inr (major, minor))))))"

text \<open>
  The block \<^verbatim>\<open>if len(words) >= 3\<close>: the status that refuses the request, if one
  does. \<^verbatim>\<open>version_number >= (2, 0)\<close> compares pairs, and holds when the first number
  is at least 2.
\<close>

definition check_version :: "pystr list \<Rightarrow> nat option" where
  "check_version ws =
     (if 3 \<le> length ws then
        (case parse_version (last ws) of
           Inl e \<Rightarrow> Some 400
         | Inr (major, minor) \<Rightarrow> if 2 \<le> major then Some 505 else None)
      else None)"

text \<open>
  \<^verbatim>\<open>if self.path.startswith('//'): self.path = '/' + self.path.lstrip('/')\<close>
\<close>

definition reduce_slashes :: "pystr \<Rightarrow> pystr" where
  "reduce_slashes path =
     (if startswith path (u ''//'') then 47 # dropWhile (\<lambda>c. c = 47) path else path)"

text \<open>
  \<open>parse_request\<close>: no answer at all (an empty line), the status of the error page
  sent, or \<^verbatim>\<open>self.command\<close> and \<^verbatim>\<open>self.path\<close>. The handler does not set
  \<^verbatim>\<open>protocol_version\<close>, which stays \<^verbatim>\<open>HTTP/1.0\<close>: an \<^verbatim>\<open>Expect\<close> header
  has no effect.
\<close>

datatype parsed = NoReply | Refused nat | Accepted pystr pystr

definition parse_request :: "request \<Rightarrow> parsed" where
  "parse_request r =
     (let ws = words r in
      if length ws = 0 then NoReply
      else
        (case check_version ws of
           Some code \<Rightarrow> Refused code
         | None \<Rightarrow>
             if \<not> (2 \<le> length ws \<and> length ws \<le> 3) then Refused 400
             else if length ws = 2 \<and> ws ! 0 \<noteq> u ''GET'' then Refused 400
             else if headers_refused r then Refused 431
             else Accepted (ws ! 0) (reduce_slashes (ws ! 1))))"

text \<open>
  \<open>handle_one_request\<close>: the base class looks for the method named \<^verbatim>\<open>do_\<close>
  followed by the command, and answers 501 when the handler has none.
  \<^verbatim>\<open>MetricsHandler\<close> defines \<^verbatim>\<open>do_GET\<close> and no other, and the base class
  defines none. \<open>Inr None\<close>: nothing is sent. \<open>Inl e\<close>: the exception \<open>e\<close> leaves
  the method (it catches \<^verbatim>\<open>TimeoutError\<close> alone), and nothing is sent.
\<close>

definition handle_one_request ::
  "pylib \<Rightarrow> int \<Rightarrow> state_file \<Rightarrow> request \<Rightarrow> error + response option" where
  "handle_one_request L now sf r =
     (if line_too_long r then Inr (Some (ErrorPage 414))
      else
        (case parse_request r of
           NoReply \<Rightarrow> Inr None
         | Refused code \<Rightarrow> Inr (Some (ErrorPage code))
         | Accepted command path \<Rightarrow>
             if command \<noteq> u ''GET'' then Inr (Some (ErrorPage 501))
             else
               (case do_GET L now sf path of
                  Inl e \<Rightarrow> Inl e
                | Inr resp \<Rightarrow> Inr (Some resp))))"

text \<open>The request \<open>command target HTTP/1.1\<close>, with headers that are accepted.\<close>

definition http11 :: "pystr \<Rightarrow> pystr \<Rightarrow> request" where
  "http11 command target =
     \<lparr>line_too_long = False, words = [command, target, u ''HTTP/1.1''],
      headers_refused = False\<rparr>"

subsection \<open>A library for the closed instances\<close>

text \<open>
  The library as the closed instances below see it: with \<^verbatim>\<open>TZ=UTC\<close> the stamp
  \<^verbatim>\<open>20240101_120000\<close> is 1704110400 seconds after the epoch, and no instance gives
  \<open>epoch_of\<close> another string, or reaches \<open>int_of_str\<close> or \<open>repr_of\<close>.
\<close>

definition sample_lib :: pylib where
  "sample_lib =
     \<lparr>epoch_of = (\<lambda>s. if s = u ''20240101_120000'' then Inr 1704110400 else Inl ValueError),
      int_of_str = (\<lambda>s. Inl ValueError),
      repr_of = (\<lambda>v. u ''[]'')\<rparr>"

section \<open>Properties\<close>

subsection \<open>Strings\<close>

lemma u_Nil [simp]: "u [] = []"
  by (simp add: u_def)

lemma u_Cons [simp]: "u (c # cs) = of_char c # u cs"
  by (simp add: u_def)

lemma u_inject [simp]: "u s = u t \<longleftrightarrow> s = t"
  by (simp add: u_def inj_map_eq_map inj_of_char)

text \<open>The digits of a number start with a digit, so only a negative number starts with \<open>-\<close>.\<close>

lemma digits_hd: "digits n \<noteq> [] \<and> 48 \<le> hd (digits n)"
proof (induction n rule: digits.induct)
  case (1 n)
  show ?case
  proof (cases "n < 10")
    case True
    then show ?thesis by (simp add: digits.simps [of n])
  next
    case False
    with 1 show ?thesis by (simp add: digits.simps [of n])
  qed
qed

lemma str_int_sign: "hd (str_int i) = 45 \<longleftrightarrow> i < 0"
  using digits_hd [of "nat i"] by (auto simp: str_int_def)

lemma str_int_0 [simp]: "str_int 0 = [48]"
  by (simp add: str_int_def digits.simps)

lemma str_int_1 [simp]: "str_int 1 = [49]"
  by (simp add: str_int_def digits.simps)

lemma str_int_5: "str_int 5 = [53]"
  by (simp add: str_int_def digits.simps)

subsection \<open>The statements of the try block\<close>

lemmas stmt_defs =
  stmt_last_success_def stmt_last_size_def stmt_total_def stmt_last_failure_def

lemma stmt_last_success_fields:
  "stmt_last_success L data s = Inr s' \<Longrightarrow>
     last_size s' = last_size s \<and> total s' = total s \<and> last_failure s' = last_failure s"
  by (auto simp: stmt_last_success_def split: sum.splits if_splits)

lemma stmt_last_size_fields:
  "stmt_last_size L data s = Inr s' \<Longrightarrow>
     last_success s' = last_success s \<and> total s' = total s \<and> last_failure s' = last_failure s"
  by (auto simp: stmt_last_size_def split: sum.splits)

lemma stmt_total_fields:
  "stmt_total L data s = Inr s' \<Longrightarrow>
     last_success s' = last_success s \<and> last_size s' = last_size s
       \<and> last_failure s' = last_failure s"
  by (auto simp: stmt_total_def split: sum.splits)

text \<open>
  Once the first statement has run, \<open>data\<close> is a dict, and the last statement, which
  only calls \<open>get\<close>, cannot raise.
\<close>

lemma stmt_last_failure_no_raise:
  "stmt_last_success L data s = Inr s' \<Longrightarrow> \<not> isl (stmt_last_failure data s'')"
  by (cases data) (auto simp: stmt_last_success_def stmt_last_failure_def)

text \<open>
  So an exception leaves \<open>total\<close> and \<open>last_failure\<close> as they were initialised.
\<close>

lemma try_block_raise_fields:
  assumes "try_block L loaded init_locals = (s, Some e)"
  shows "total s = 0 \<and> last_failure s = JStr []"
proof (cases loaded)
  case (Inl x)
  with assms show ?thesis by (auto simp: try_block_def init_locals_def)
next
  case (Inr data)
  show ?thesis
  proof (cases "stmt_last_success L data init_locals")
    case (Inl x)
    with assms Inr show ?thesis by (auto simp: try_block_def init_locals_def)
  next
    case s1: (Inr s1)
    note f1 = stmt_last_success_fields [OF s1]
    show ?thesis
    proof (cases "stmt_last_size L data s1")
      case (Inl x)
      with assms Inr s1 f1 show ?thesis by (auto simp: try_block_def init_locals_def)
    next
      case s2: (Inr s2)
      note f2 = stmt_last_size_fields [OF s2]
      show ?thesis
      proof (cases "stmt_total L data s2")
        case (Inl x)
        with assms Inr s1 s2 f1 f2 show ?thesis by (auto simp: try_block_def init_locals_def)
      next
        case s3: (Inr s3)
        from stmt_last_failure_no_raise [OF s1, of s3]
        obtain s4 where "stmt_last_failure data s3 = Inr s4"
          by (cases "stmt_last_failure data s3") simp_all
        with assms Inr s1 s2 s3 show ?thesis by (auto simp: try_block_def)
      qed
    qed
  qed
qed

text \<open>
  The first statement in terms of what \<open>get\<close> returns: a falsy value leaves the
  variable, a truthy one is parsed.
\<close>

lemma dict_item_truthy:
  "dict_get data k JNull = Inr c \<Longrightarrow> truthy c \<Longrightarrow> dict_item data k = Inr c"
  by (cases data) (auto split: option.splits)

lemma stmt_last_success_falsy:
  "dict_get data (u ''last_success'') JNull = Inr c \<Longrightarrow> \<not> truthy c \<Longrightarrow>
     stmt_last_success L data s = Inr s"
  by (simp add: stmt_last_success_def)

lemma stmt_last_success_truthy:
  "dict_get data (u ''last_success'') JNull = Inr c \<Longrightarrow> truthy c \<Longrightarrow>
     stmt_last_success L data s =
       (case strptime_mktime L c of Inl e \<Rightarrow> Inl e | Inr t \<Rightarrow> Inr (s\<lparr>last_success := t\<rparr>))"
  by (simp add: stmt_last_success_def dict_item_truthy)

lemma stmt_last_success_value:
  assumes "dict_get data (u ''last_success'') JNull = Inr c"
    and "if truthy c then strptime_mktime L c = Inr t else t = 0"
  shows "stmt_last_success L data init_locals = Inr (init_locals\<lparr>last_success := t\<rparr>)"
proof (cases "truthy c")
  case True
  with assms show ?thesis by (simp add: stmt_last_success_truthy)
next
  case False
  with assms show ?thesis by (simp add: stmt_last_success_falsy init_locals_def)
qed

subsection \<open>A state file that cannot be parsed\<close>

text \<open>
  C1, as the spec states it: whenever the file exists and the try block raises, the four
  numbers are zero and the failure line is \<^verbatim>\<open>state_parse_error\<close> with gauge 1. It
  fails on \<^verbatim>\<open>{"last_size_bytes": 5, "total_backups": null}\<close>: \<^verbatim>\<open>int(None)\<close>
  raises TypeError after \<open>last_size\<close> was assigned, and the archive line reads 5.
\<close>

theorem parse_failure_keeps_size_counterexample:
  "try_block sample_lib
      (Inr (JDict [(u ''last_size_bytes'', JInt 5), (u ''total_backups'', JNull)])) init_locals
     = (init_locals\<lparr>last_size := 5\<rparr>, Some TypeError)
   \<and> build_metrics sample_lib 0
        (Existing (Inr (JDict [(u ''last_size_bytes'', JInt 5), (u ''total_backups'', JNull)])))
     = Inr [u ''mongo_backup_last_success_timestamp 0'',
        u ''mongo_backup_last_run_age_seconds 0'',
        u ''mongo_backup_last_archive_bytes 5'',
        u ''mongo_backup_total_runs 0'',
        u ''mongo_backup_last_failure{message='' @ [34] @ u ''state_parse_error'' @ [34]
          @ u ''} 1'']"
  by (simp add: try_block_def stmt_defs init_locals_def build_metrics_def read_state_def
      format_metrics_def str_int_5)

text \<open>The lines after an exception, from the variables that the try block left.\<close>

lemma build_metrics_raise:
  assumes "try_block L loaded init_locals = (s, Some e)"
  shows "build_metrics L now (Existing loaded) =
     Inr [u ''mongo_backup_last_success_timestamp '' @ str_int (last_success s),
      u ''mongo_backup_last_run_age_seconds ''
        @ str_int (if last_success s \<noteq> 0 then now - last_success s else 0),
      u ''mongo_backup_last_archive_bytes '' @ str_int (last_size s),
      u ''mongo_backup_total_runs 0'',
      u ''mongo_backup_last_failure{message='' @ [34] @ u ''state_parse_error'' @ [34]
        @ u ''} 1'']"
proof -
  from assms have t: "total s = 0" by (simp add: try_block_raise_fields)
  have "build_metrics L now (Existing loaded) =
      Inr (format_metrics L now (s\<lparr>last_failure := JStr (u ''state_parse_error'')\<rparr>))"
    using assms by (simp add: build_metrics_def read_state_def)
  then show ?thesis
    using t by (simp add: format_metrics_def)
qed

text \<open>The four places where the try block can raise, and the variables at each.\<close>

lemma try_block_load_raises:
  "try_block L (Inl e) init_locals = (init_locals, Some e)"
  by (simp add: try_block_def)

lemma try_block_first_raises:
  "stmt_last_success L data init_locals = Inl e \<Longrightarrow>
     try_block L (Inr data) init_locals = (init_locals, Some e)"
  by (simp add: try_block_def)

lemma try_block_size_raises:
  assumes "dict_get data (u ''last_success'') JNull = Inr c"
    and "if truthy c then strptime_mktime L c = Inr t else t = 0"
    and "dict_get data (u ''last_size_bytes'') (JInt 0) = Inr v"
    and "py_int L v = Inl e"
  shows "try_block L (Inr data) init_locals = (init_locals\<lparr>last_success := t\<rparr>, Some e)"
  using assms(3,4) stmt_last_success_value [OF assms(1,2)]
  by (simp add: try_block_def stmt_last_size_def)

lemma try_block_total_raises:
  assumes "dict_get data (u ''last_success'') JNull = Inr c"
    and "if truthy c then strptime_mktime L c = Inr t else t = 0"
    and "dict_get data (u ''last_size_bytes'') (JInt 0) = Inr v"
    and "py_int L v = Inr n"
    and "dict_get data (u ''total_backups'') (JInt 0) = Inr w"
    and "py_int L w = Inl e"
  shows "try_block L (Inr data) init_locals
     = (init_locals\<lparr>last_success := t, last_size := n\<rparr>, Some e)"
  using assms(3-6) stmt_last_success_value [OF assms(1,2)]
  by (simp add: try_block_def stmt_last_size_def stmt_total_def)

text \<open>
  C1, amended. Whenever the file exists and the try block raises, \<open>total_runs\<close> is 0
  and the failure line is \<^verbatim>\<open>state_parse_error\<close> with gauge 1. The timestamp and the
  archive size are zero when the exception comes from reading or decoding the file or from
  the \<open>last_success\<close> statement (where a value that is not an object fails, too). When
  \<^verbatim>\<open>int\<close> raises on \<open>last_size_bytes\<close>, the timestamp line shows the epoch \<open>t\<close> that
  was extracted and the age is counted from it; when \<^verbatim>\<open>int\<close> raises on
  \<open>total_backups\<close>, the archive line shows the size \<open>n\<close> that was extracted as well.
\<close>

theorem parse_failure_metrics:
  "(snd (try_block L loaded init_locals) \<noteq> None \<longrightarrow>
      (\<exists>m. build_metrics L now (Existing loaded) = Inr m \<and> length m = 5
         \<and> m ! 3 = u ''mongo_backup_total_runs 0''
         \<and> m ! 4 = u ''mongo_backup_last_failure{message='' @ [34] @ u ''state_parse_error''
               @ [34] @ u ''} 1''))
   \<and> (loaded = Inl e \<or> (\<exists>data. loaded = Inr data \<and> stmt_last_success L data init_locals = Inl e)
       \<longrightarrow> build_metrics L now (Existing loaded) =
         Inr [u ''mongo_backup_last_success_timestamp 0'',
              u ''mongo_backup_last_run_age_seconds 0'',
              u ''mongo_backup_last_archive_bytes 0'',
              u ''mongo_backup_total_runs 0'',
              u ''mongo_backup_last_failure{message='' @ [34] @ u ''state_parse_error''
                @ [34] @ u ''} 1''])
   \<and> (dict_get data (u ''last_success'') JNull = Inr c
       \<and> (if truthy c then strptime_mktime L c = Inr t else t = 0)
       \<and> dict_get data (u ''last_size_bytes'') (JInt 0) = Inr v
       \<and> py_int L v = Inl e
       \<longrightarrow> build_metrics L now (Existing (Inr data)) =
         Inr [u ''mongo_backup_last_success_timestamp '' @ str_int t,
              u ''mongo_backup_last_run_age_seconds ''
                @ str_int (if t \<noteq> 0 then now - t else 0),
              u ''mongo_backup_last_archive_bytes 0'',
              u ''mongo_backup_total_runs 0'',
              u ''mongo_backup_last_failure{message='' @ [34] @ u ''state_parse_error''
                @ [34] @ u ''} 1''])
   \<and> (dict_get data (u ''last_success'') JNull = Inr c
       \<and> (if truthy c then strptime_mktime L c = Inr t else t = 0)
       \<and> dict_get data (u ''last_size_bytes'') (JInt 0) = Inr v
       \<and> py_int L v = Inr n
       \<and> dict_get data (u ''total_backups'') (JInt 0) = Inr w
       \<and> py_int L w = Inl e
       \<longrightarrow> build_metrics L now (Existing (Inr data)) =
         Inr [u ''mongo_backup_last_success_timestamp '' @ str_int t,
              u ''mongo_backup_last_run_age_seconds ''
                @ str_int (if t \<noteq> 0 then now - t else 0),
              u ''mongo_backup_last_archive_bytes '' @ str_int n,
              u ''mongo_backup_total_runs 0'',
              u ''mongo_backup_last_failure{message='' @ [34] @ u ''state_parse_error''
                @ [34] @ u ''} 1''])"
proof (intro conjI impI)
  assume "snd (try_block L loaded init_locals) \<noteq> None"
  then obtain s x where "try_block L loaded init_locals = (s, Some x)"
    by (cases "try_block L loaded init_locals") auto
  from build_metrics_raise [OF this, of now]
  show "\<exists>m. build_metrics L now (Existing loaded) = Inr m \<and> length m = 5
         \<and> m ! 3 = u ''mongo_backup_total_runs 0''
         \<and> m ! 4 = u ''mongo_backup_last_failure{message='' @ [34] @ u ''state_parse_error''
               @ [34] @ u ''} 1''"
    by simp
next
  assume "loaded = Inl e
    \<or> (\<exists>data. loaded = Inr data \<and> stmt_last_success L data init_locals = Inl e)"
  then have "try_block L loaded init_locals = (init_locals, Some e)"
    by (auto simp: try_block_load_raises try_block_first_raises)
  from build_metrics_raise [OF this, of now]
  show "build_metrics L now (Existing loaded) =
         Inr [u ''mongo_backup_last_success_timestamp 0'',
              u ''mongo_backup_last_run_age_seconds 0'',
              u ''mongo_backup_last_archive_bytes 0'',
              u ''mongo_backup_total_runs 0'',
              u ''mongo_backup_last_failure{message='' @ [34] @ u ''state_parse_error''
                @ [34] @ u ''} 1'']"
    by (simp add: init_locals_def)
next
  assume "dict_get data (u ''last_success'') JNull = Inr c
       \<and> (if truthy c then strptime_mktime L c = Inr t else t = 0)
       \<and> dict_get data (u ''last_size_bytes'') (JInt 0) = Inr v
       \<and> py_int L v = Inl e"
  then have "try_block L (Inr data) init_locals = (init_locals\<lparr>last_success := t\<rparr>, Some e)"
    by (intro try_block_size_raises [of data c L t v e]) simp_all
  from build_metrics_raise [OF this, of now]
  show "build_metrics L now (Existing (Inr data)) =
         Inr [u ''mongo_backup_last_success_timestamp '' @ str_int t,
              u ''mongo_backup_last_run_age_seconds ''
                @ str_int (if t \<noteq> 0 then now - t else 0),
              u ''mongo_backup_last_archive_bytes 0'',
              u ''mongo_backup_total_runs 0'',
              u ''mongo_backup_last_failure{message='' @ [34] @ u ''state_parse_error''
                @ [34] @ u ''} 1'']"
    by (simp add: init_locals_def)
next
  assume "dict_get data (u ''last_success'') JNull = Inr c
       \<and> (if truthy c then strptime_mktime L c = Inr t else t = 0)
       \<and> dict_get data (u ''last_size_bytes'') (JInt 0) = Inr v
       \<and> py_int L v = Inr n
       \<and> dict_get data (u ''total_backups'') (JInt 0) = Inr w
       \<and> py_int L w = Inl e"
  then have "try_block L (Inr data) init_locals
     = (init_locals\<lparr>last_success := t, last_size := n\<rparr>, Some e)"
    by (intro try_block_total_raises [of data c L t v n w e]) simp_all
  from build_metrics_raise [OF this, of now]
  show "build_metrics L now (Existing (Inr data)) =
         Inr [u ''mongo_backup_last_success_timestamp '' @ str_int t,
              u ''mongo_backup_last_run_age_seconds ''
                @ str_int (if t \<noteq> 0 then now - t else 0),
              u ''mongo_backup_last_archive_bytes '' @ str_int n,
              u ''mongo_backup_total_runs 0'',
              u ''mongo_backup_last_failure{message='' @ [34] @ u ''state_parse_error''
                @ [34] @ u ''} 1'']"
    by (simp add: init_locals_def)
qed

theorem parse_failure_metrics_witness:
  "build_metrics sample_lib 7 (Existing (Inl JSONDecodeError)) =
     Inr [u ''mongo_backup_last_success_timestamp 0'',
      u ''mongo_backup_last_run_age_seconds 0'',
      u ''mongo_backup_last_archive_bytes 0'',
      u ''mongo_backup_total_runs 0'',
      u ''mongo_backup_last_failure{message='' @ [34] @ u ''state_parse_error'' @ [34]
        @ u ''} 1'']
   \<and> build_metrics sample_lib 1704110460
       (Existing (Inr (JDict [(u ''last_success'', JStr (u ''20240101_120000'')),
                              (u ''last_size_bytes'', JNull)]))) =
     Inr [u ''mongo_backup_last_success_timestamp 1704110400'',
      u ''mongo_backup_last_run_age_seconds 60'',
      u ''mongo_backup_last_archive_bytes 0'',
      u ''mongo_backup_total_runs 0'',
      u ''mongo_backup_last_failure{message='' @ [34] @ u ''state_parse_error'' @ [34]
        @ u ''} 1'']
   \<and> build_metrics sample_lib 7
       (Existing (Inr (JDict [(u ''last_size_bytes'', JInt 5), (u ''total_backups'', JNull)]))) =
     Inr [u ''mongo_backup_last_success_timestamp 0'',
      u ''mongo_backup_last_run_age_seconds 0'',
      u ''mongo_backup_last_archive_bytes 5'',
      u ''mongo_backup_total_runs 0'',
      u ''mongo_backup_last_failure{message='' @ [34] @ u ''state_parse_error'' @ [34]
        @ u ''} 1'']"
proof -
  let ?d1 = "JDict [(u ''last_success'', JStr (u ''20240101_120000'')),
                    (u ''last_size_bytes'', JNull)]"
  let ?d2 = "JDict [(u ''last_size_bytes'', JInt 5), (u ''total_backups'', JNull)]"
  have a: "build_metrics sample_lib 7 (Existing (Inl JSONDecodeError)) =
     Inr [u ''mongo_backup_last_success_timestamp 0'',
      u ''mongo_backup_last_run_age_seconds 0'',
      u ''mongo_backup_last_archive_bytes 0'',
      u ''mongo_backup_total_runs 0'',
      u ''mongo_backup_last_failure{message='' @ [34] @ u ''state_parse_error'' @ [34]
        @ u ''} 1'']"
    using parse_failure_metrics [where L = sample_lib and loaded = "Inl JSONDecodeError"
        and now = 7 and e = JSONDecodeError]
    by simp
  have h1: "dict_get ?d1 (u ''last_success'') JNull = Inr (JStr (u ''20240101_120000''))
       \<and> (if truthy (JStr (u ''20240101_120000''))
           then strptime_mktime sample_lib (JStr (u ''20240101_120000'')) = Inr 1704110400
           else (1704110400::int) = 0)
       \<and> dict_get ?d1 (u ''last_size_bytes'') (JInt 0) = Inr JNull
       \<and> py_int sample_lib JNull = Inl TypeError"
    by (simp add: sample_lib_def)
  have b: "build_metrics sample_lib 1704110460 (Existing (Inr ?d1)) =
     Inr [u ''mongo_backup_last_success_timestamp 1704110400'',
      u ''mongo_backup_last_run_age_seconds 60'',
      u ''mongo_backup_last_archive_bytes 0'',
      u ''mongo_backup_total_runs 0'',
      u ''mongo_backup_last_failure{message='' @ [34] @ u ''state_parse_error'' @ [34]
        @ u ''} 1'']"
    using parse_failure_metrics [where L = sample_lib and now = 1704110460 and e = TypeError
        and data = ?d1 and c = "JStr (u ''20240101_120000'')" and t = 1704110400
        and v = JNull] h1
    by (simp add: str_int_def digits.simps)
  have h2: "dict_get ?d2 (u ''last_success'') JNull = Inr JNull
       \<and> (if truthy JNull then strptime_mktime sample_lib JNull = Inr 0 else (0::int) = 0)
       \<and> dict_get ?d2 (u ''last_size_bytes'') (JInt 0) = Inr (JInt 5)
       \<and> py_int sample_lib (JInt 5) = Inr 5
       \<and> dict_get ?d2 (u ''total_backups'') (JInt 0) = Inr JNull
       \<and> py_int sample_lib JNull = Inl TypeError"
    by simp
  have c: "build_metrics sample_lib 7 (Existing (Inr ?d2)) =
     Inr [u ''mongo_backup_last_success_timestamp 0'',
      u ''mongo_backup_last_run_age_seconds 0'',
      u ''mongo_backup_last_archive_bytes 5'',
      u ''mongo_backup_total_runs 0'',
      u ''mongo_backup_last_failure{message='' @ [34] @ u ''state_parse_error'' @ [34]
        @ u ''} 1'']"
    using parse_failure_metrics [where L = sample_lib and now = 7 and e = TypeError
        and data = ?d2 and c = JNull and t = 0 and v = "JInt 5" and n = 5 and w = JNull] h2
    by (simp add: str_int_5)
  from a b c show ?thesis by blast
qed

subsection \<open>A state file that does not exist\<close>

text \<open>
  C4: while the state file does not exist, the four numeric gauges are 0 and the failure
  line has the message \<open>""\<close> and the value 0, in the list that \<open>build_metrics\<close> returns
  and in the body of the response to \<open>/metrics\<close> and to \<open>/\<close>, whatever the clock and
  the library.
\<close>

theorem missing_file_metrics:
  "build_metrics L now Missing =
     Inr [u ''mongo_backup_last_success_timestamp 0'',
          u ''mongo_backup_last_run_age_seconds 0'',
          u ''mongo_backup_last_archive_bytes 0'',
          u ''mongo_backup_total_runs 0'',
          u ''mongo_backup_last_failure{message='' @ [34, 34] @ u ''} 0'']
   \<and> do_GET L now Missing (u ''/metrics'') =
       Inr (Response 200
             [(u ''Content-Type'', u ''text/plain; version=0.0.4''),
              (u ''Content-Length'', u ''173'')]
             (u ''mongo_backup_last_success_timestamp 0'' @ [10]
              @ u ''mongo_backup_last_run_age_seconds 0'' @ [10]
              @ u ''mongo_backup_last_archive_bytes 0'' @ [10]
              @ u ''mongo_backup_total_runs 0'' @ [10]
              @ u ''mongo_backup_last_failure{message='' @ [34, 34] @ u ''} 0''))
   \<and> do_GET L now Missing (u ''/'') = do_GET L now Missing (u ''/metrics'')"
  by (simp add: build_metrics_def read_state_def init_locals_def format_metrics_def
      do_GET_def utf8_char_def str_int_def digits.simps)

subsection \<open>When build_metrics returns and when it raises\<close>

text \<open>
  When \<^verbatim>\<open>exists()\<close> answers, \<open>build_metrics\<close> returns its five lines: every
  exception of the try block is a value inside \<open>try_block\<close>, and \<open>read_state\<close> turns it
  into the failure message.
\<close>

lemma read_state_returns:
  "sf = Missing \<or> sf = Existing loaded \<Longrightarrow> \<exists>s. read_state L sf = Inr s"
  by (auto simp: read_state_def split: prod.splits option.splits)

lemma build_metrics_five_lines:
  assumes "sf = Missing \<or> sf = Existing loaded"
  shows "\<exists>a b c d m g.
     build_metrics L now sf =
       Inr [u ''mongo_backup_last_success_timestamp '' @ str_int a,
            u ''mongo_backup_last_run_age_seconds '' @ str_int b,
            u ''mongo_backup_last_archive_bytes '' @ str_int c,
            u ''mongo_backup_total_runs '' @ str_int d,
            u ''mongo_backup_last_failure{message='' @ [34] @ m @ [34] @ u ''} '' @ str_int g]
     \<and> (g = 0 \<or> g = 1)"
proof -
  from read_state_returns [OF assms] obtain s where s: "read_state L sf = Inr s" by blast
  define g :: int where "g = (if truthy (last_failure s) then 1 else 0)"
  have "build_metrics L now sf =
       Inr [u ''mongo_backup_last_success_timestamp '' @ str_int (last_success s),
            u ''mongo_backup_last_run_age_seconds ''
              @ str_int (if last_success s \<noteq> 0 then now - last_success s else 0),
            u ''mongo_backup_last_archive_bytes '' @ str_int (last_size s),
            u ''mongo_backup_total_runs '' @ str_int (total s),
            u ''mongo_backup_last_failure{message='' @ [34] @ py_str L (last_failure s) @ [34]
              @ u ''} '' @ str_int g]"
    by (simp add: build_metrics_def s format_metrics_def g_def)
  moreover have "g = 0 \<or> g = 1" by (simp add: g_def)
  ultimately show ?thesis by blast
qed

text \<open>
  C3 says that \<open>build_metrics\<close> raises for no state of the state file. The test
  \<^verbatim>\<open>STATE_FILE.exists()\<close> stands before the \<^verbatim>\<open>try\<close>: when the state file lies in
  a directory that the process may not search, \<^verbatim>\<open>stat\<close> fails with EACCES,
  \<^verbatim>\<open>exists\<close> raises PermissionError, the exception leaves \<open>build_metrics\<close> and
  \<open>do_GET\<close>, and the request \<^verbatim>\<open>GET /metrics\<close> gets no response. The same
  PermissionError on \<^verbatim>\<open>read_text\<close>, inside the \<^verbatim>\<open>try\<close>, is answered with the five
  lines and \<^verbatim>\<open>state_parse_error\<close>.
\<close>

theorem exists_raises_no_metrics:
  "build_metrics sample_lib 0 (StatRaises PermissionError) = Inl PermissionError
   \<and> handle_one_request sample_lib 0 (StatRaises PermissionError)
        (http11 (u ''GET'') (u ''/metrics'')) = Inl PermissionError
   \<and> build_metrics sample_lib 0 (Existing (Inl PermissionError)) =
       Inr [u ''mongo_backup_last_success_timestamp 0'',
            u ''mongo_backup_last_run_age_seconds 0'',
            u ''mongo_backup_last_archive_bytes 0'',
            u ''mongo_backup_total_runs 0'',
            u ''mongo_backup_last_failure{message='' @ [34] @ u ''state_parse_error'' @ [34]
              @ u ''} 1'']"
  by (simp add: build_metrics_def read_state_def try_block_def init_locals_def
      format_metrics_def handle_one_request_def http11_def parse_request_def check_version_def
      parse_version_def startswith_def after_first_def isdigit_def int_of_digits_def
      reduce_slashes_def do_GET_def)

subsection \<open>The response of do_GET\<close>

text \<open>
  On its two paths, and when \<open>build_metrics\<close> returns, \<open>do_GET\<close> either sends status
  200 with the two headers, the length being that of the encoded body, or the encoding
  raises and nothing is sent.
\<close>

lemma utf8_char_error: "utf8_char c = Inl e \<Longrightarrow> e = UnicodeEncodeError"
  by (auto simp: utf8_char_def split: if_splits)

lemma encode_utf8_error: "encode_utf8 cs = Inl e \<Longrightarrow> e = UnicodeEncodeError"
  by (induction cs) (auto split: sum.splits dest: utf8_char_error)

lemma do_GET_sends:
  assumes "path = u ''/'' \<or> path = u ''/metrics''"
    and "build_metrics L now sf = Inr metrics"
  shows "do_GET L now sf path = Inl UnicodeEncodeError
    \<or> (\<exists>payload. encode_utf8 (join [10] metrics) = Inr payload
         \<and> do_GET L now sf path =
             Inr (Response 200
                   [(u ''Content-Type'', u ''text/plain; version=0.0.4''),
                    (u ''Content-Length'', str_int (int (length payload)))]
                   payload))"
proof (cases "encode_utf8 (join [10] metrics)")
  case (Inl e)
  with assms encode_utf8_error [OF Inl] show ?thesis
    by (auto simp: do_GET_def)
next
  case (Inr payload)
  with assms show ?thesis
    by (auto simp: do_GET_def)
qed

text \<open>
  C5 says that every GET of \<open>/\<close> or \<open>/metrics\<close> is answered with status 200 and the five
  lines. With the state file \<^verbatim>\<open>{"last_failure": "\ud800"}\<close> the message is a lone
  surrogate, \<open>build_metrics\<close> returns its five lines, and \<^verbatim>\<open>encode("utf-8")\<close> raises
  UnicodeEncodeError in \<open>do_GET\<close> before \<^verbatim>\<open>send_response(200)\<close>: no response is sent.
\<close>

theorem surrogate_message_no_response:
  "do_GET sample_lib 0 (Existing (Inr (JDict [(u ''last_failure'', JStr [0xD800])])))
     (u ''/metrics'') = Inl UnicodeEncodeError"
  by (simp add: do_GET_def build_metrics_def read_state_def init_locals_def format_metrics_def
      try_block_def stmt_defs utf8_char_def)

subsection \<open>The age of the last run\<close>

text \<open>
  C6: whenever \<open>build_metrics\<close> builds its lines (\<^verbatim>\<open>exists()\<close> has answered), the
  \<open>last_run_age_seconds\<close> line is \<open>now\<close> minus the epoch of the last success when that
  epoch is not zero, and 0 when it is zero; the epoch is the one that the
  \<open>last_success_timestamp\<close> line shows.
\<close>

theorem run_age_line:
  assumes "sf = Missing \<or> sf = Existing loaded"
  shows "\<exists>s m. read_state L sf = Inr s \<and> build_metrics L now sf = Inr m
     \<and> (last_success s \<noteq> 0 \<longrightarrow>
          m ! 1 = u ''mongo_backup_last_run_age_seconds '' @ str_int (now - last_success s))
     \<and> (last_success s = 0 \<longrightarrow> m ! 1 = u ''mongo_backup_last_run_age_seconds 0'')
     \<and> m ! 0 = u ''mongo_backup_last_success_timestamp '' @ str_int (last_success s)"
proof -
  from read_state_returns [OF assms] obtain s where s: "read_state L sf = Inr s" by blast
  then have "build_metrics L now sf = Inr (format_metrics L now s)"
    by (simp add: build_metrics_def)
  with s show ?thesis
    by (simp add: format_metrics_def)
qed

theorem run_age_line_witness:
  "(\<exists>s m. read_state sample_lib
        (Existing (Inr (JDict [(u ''last_success'', JStr (u ''20240101_120000''))]))) = Inr s
      \<and> build_metrics sample_lib 1704110460
        (Existing (Inr (JDict [(u ''last_success'', JStr (u ''20240101_120000''))]))) = Inr m
      \<and> last_success s = 1704110400
      \<and> m ! 1 = u ''mongo_backup_last_run_age_seconds 60'')
   \<and> (\<exists>s m. read_state sample_lib Missing = Inr s
      \<and> build_metrics sample_lib 1704110460 Missing = Inr m
      \<and> last_success s = 0
      \<and> m ! 1 = u ''mongo_backup_last_run_age_seconds 0'')"
proof -
  let ?sf = "Existing (Inr (JDict [(u ''last_success'', JStr (u ''20240101_120000''))]))"
  have a: "read_state sample_lib ?sf = Inr (init_locals\<lparr>last_success := 1704110400\<rparr>)"
    by (simp add: read_state_def try_block_def stmt_defs init_locals_def sample_lib_def)
  have b: "read_state sample_lib Missing = Inr init_locals"
    by (simp add: read_state_def)
  have c: "str_int (1704110460 - 1704110400) = u ''60''"
    by (simp add: str_int_def digits.simps)
  from run_age_line [of ?sf _ sample_lib 1704110460]
  have 1: "\<exists>s m. read_state sample_lib ?sf = Inr s
      \<and> build_metrics sample_lib 1704110460 ?sf = Inr m
      \<and> last_success s = 1704110400
      \<and> m ! 1 = u ''mongo_backup_last_run_age_seconds 60''"
    unfolding a using c by (auto simp: init_locals_def)
  from run_age_line [of Missing _ sample_lib 1704110460]
  have 2: "\<exists>s m. read_state sample_lib Missing = Inr s
      \<and> build_metrics sample_lib 1704110460 Missing = Inr m
      \<and> last_success s = 0
      \<and> m ! 1 = u ''mongo_backup_last_run_age_seconds 0''"
    unfolding b by (auto simp: init_locals_def)
  from 1 2 show ?thesis by blast
qed

subsection \<open>The record of the spec's example\<close>

text \<open>
  C7, as the spec states it, ends with: the age is non-negative for any clock. With the
  clock at 0 and the stamp at its UTC epoch the age line reads \<open>-1704110400\<close>: the
  subtraction is not clamped.
\<close>

theorem example_record_negative_age_counterexample:
  "build_metrics sample_lib 0
     (Existing (Inr (JDict [(u ''last_success'', JStr (u ''20240101_120000'')),
                            (u ''last_size_bytes'', JInt 1048576),
                            (u ''total_backups'', JInt 42)])))
     = Inr [u ''mongo_backup_last_success_timestamp 1704110400'',
            u ''mongo_backup_last_run_age_seconds -1704110400'',
            u ''mongo_backup_last_archive_bytes 1048576'',
            u ''mongo_backup_total_runs 42'',
            u ''mongo_backup_last_failure{message='' @ [34, 34] @ u ''} 0'']"
  by (simp add: build_metrics_def read_state_def init_locals_def format_metrics_def
      try_block_def stmt_defs sample_lib_def str_int_def digits.simps)

text \<open>
  C7, amended: for the record with \<open>last_success = "20240101_120000"\<close>,
  \<open>last_size_bytes = 1048576\<close>, \<open>total_backups = 42\<close> and no \<open>last_failure\<close>, where the
  library gives the stamp the epoch \<open>e\<close> (not zero), the lines are the timestamp \<open>e\<close>,
  the age \<open>now - e\<close>, \<open>mongo_backup_last_archive_bytes 1048576\<close>,
  \<open>mongo_backup_total_runs 42\<close> and the failure gauge 0 with the message \<open>""\<close>; the age
  is written with a minus sign exactly when the clock is before \<open>e\<close>.
\<close>

theorem example_record_metrics:
  assumes "epoch_of L (u ''20240101_120000'') = Inr e" and "e \<noteq> 0"
  shows "build_metrics L now
     (Existing (Inr (JDict [(u ''last_success'', JStr (u ''20240101_120000'')),
                            (u ''last_size_bytes'', JInt 1048576),
                            (u ''total_backups'', JInt 42)])))
     = Inr [u ''mongo_backup_last_success_timestamp '' @ str_int e,
            u ''mongo_backup_last_run_age_seconds '' @ str_int (now - e),
            u ''mongo_backup_last_archive_bytes 1048576'',
            u ''mongo_backup_total_runs 42'',
            u ''mongo_backup_last_failure{message='' @ [34, 34] @ u ''} 0'']
   \<and> (hd (str_int (now - e)) = 45 \<longleftrightarrow> now < e)"
  using assms
  by (simp add: build_metrics_def read_state_def init_locals_def format_metrics_def
      try_block_def stmt_defs str_int_sign) (simp add: str_int_def digits.simps)

theorem example_record_metrics_witness:
  "build_metrics sample_lib 1704110460
     (Existing (Inr (JDict [(u ''last_success'', JStr (u ''20240101_120000'')),
                            (u ''last_size_bytes'', JInt 1048576),
                            (u ''total_backups'', JInt 42)])))
     = Inr [u ''mongo_backup_last_success_timestamp 1704110400'',
            u ''mongo_backup_last_run_age_seconds 60'',
            u ''mongo_backup_last_archive_bytes 1048576'',
            u ''mongo_backup_total_runs 42'',
            u ''mongo_backup_last_failure{message='' @ [34, 34] @ u ''} 0'']"
proof -
  have h: "epoch_of sample_lib (u ''20240101_120000'') = Inr 1704110400"
    by (simp add: sample_lib_def)
  have n: "(1704110400 :: int) \<noteq> 0" by simp
  from example_record_metrics [OF h n, of 1704110460] show ?thesis
    by (simp add: str_int_def digits.simps)
qed

subsection \<open>Two requests on an unchanged file\<close>

text \<open>
  C8: two requests on the same state file, at the clocks \<open>now1\<close> and \<open>now2\<close>, for which
  \<open>build_metrics\<close> builds its lines (\<^verbatim>\<open>exists()\<close> has answered), give the same
  \<open>last_success_timestamp\<close>, \<open>last_archive_bytes\<close>, \<open>total_runs\<close> and failure lines;
  their age lines hold two numbers that are equal or differ by \<open>now2 - now1\<close>.
\<close>

theorem consecutive_requests:
  assumes "sf = Missing \<or> sf = Existing loaded"
  shows "\<exists>m1 m2. build_metrics L now1 sf = Inr m1 \<and> build_metrics L now2 sf = Inr m2
   \<and> m1 ! 0 = m2 ! 0 \<and> m1 ! 2 = m2 ! 2 \<and> m1 ! 3 = m2 ! 3 \<and> m1 ! 4 = m2 ! 4
   \<and> (\<exists>a1 a2.
        m1 ! 1 = u ''mongo_backup_last_run_age_seconds '' @ str_int a1
      \<and> m2 ! 1 = u ''mongo_backup_last_run_age_seconds '' @ str_int a2
      \<and> (a2 - a1 = now2 - now1 \<or> a2 = a1))"
proof -
  from read_state_returns [OF assms] obtain s where s: "read_state L sf = Inr s" by blast
  define ls where "ls = last_success s"
  define a1 where "a1 = (if ls \<noteq> 0 then now1 - ls else 0)"
  define a2 where "a2 = (if ls \<noteq> 0 then now2 - ls else 0)"
  define m1 where "m1 = format_metrics L now1 s"
  define m2 where "m2 = format_metrics L now2 s"
  have b1: "build_metrics L now1 sf = Inr m1" and b2: "build_metrics L now2 sf = Inr m2"
    by (simp_all add: build_metrics_def s m1_def m2_def)
  have same: "m1 ! 0 = m2 ! 0 \<and> m1 ! 2 = m2 ! 2 \<and> m1 ! 3 = m2 ! 3 \<and> m1 ! 4 = m2 ! 4"
    by (simp add: m1_def m2_def format_metrics_def)
  have l1: "m1 ! 1 = u ''mongo_backup_last_run_age_seconds '' @ str_int a1"
    by (simp add: m1_def format_metrics_def a1_def ls_def)
  have l2: "m2 ! 1 = u ''mongo_backup_last_run_age_seconds '' @ str_int a2"
    by (simp add: m2_def format_metrics_def a2_def ls_def)
  have d: "a2 - a1 = now2 - now1 \<or> a2 = a1"
    by (simp add: a1_def a2_def)
  from b1 b2 same l1 l2 d show ?thesis by blast
qed

theorem consecutive_requests_witness:
  "\<exists>m1 m2. build_metrics sample_lib 1704110460
       (Existing (Inr (JDict [(u ''last_success'', JStr (u ''20240101_120000''))]))) = Inr m1
   \<and> build_metrics sample_lib 1704110475
       (Existing (Inr (JDict [(u ''last_success'', JStr (u ''20240101_120000''))]))) = Inr m2
   \<and> m1 ! 0 = m2 ! 0 \<and> m1 ! 2 = m2 ! 2 \<and> m1 ! 3 = m2 ! 3 \<and> m1 ! 4 = m2 ! 4
   \<and> (\<exists>a1 a2.
        m1 ! 1 = u ''mongo_backup_last_run_age_seconds '' @ str_int a1
      \<and> m2 ! 1 = u ''mongo_backup_last_run_age_seconds '' @ str_int a2
      \<and> (a2 - a1 = 1704110475 - 1704110460 \<or> a2 = a1))"
  by (rule consecutive_requests [of _ "Inr (JDict [(u ''last_success'', JStr (u ''20240101_120000''))])"])
    simp

subsection \<open>A last_failure that is present and falsy\<close>

lemma map_of_filter_other:
  "k' \<noteq> k \<Longrightarrow> map_of (filter (\<lambda>kv. fst kv \<noteq> k) kvs) k' = map_of kvs k'"
  by (induction kvs) auto

lemma map_of_filter_same: "map_of (filter (\<lambda>kv. fst kv \<noteq> k) kvs) k = None"
  by (induction kvs) auto

text \<open>
  C9: when the record holds a \<open>last_failure\<close> that is falsy (\<open>null\<close>, \<open>false\<close>, \<open>0\<close> and
  \<open>""\<close> are), the metrics are those of the same record without the field, and, when the
  try block does not raise on the other fields, the failure line has the message \<open>""\<close>
  and the value 0.
\<close>

theorem falsy_last_failure:
  assumes "map_of kvs (u ''last_failure'') = Some v" and "\<not> truthy v"
  shows "build_metrics L now (Existing (Inr (JDict kvs)))
      = build_metrics L now
          (Existing (Inr (JDict (filter (\<lambda>kv. fst kv \<noteq> u ''last_failure'') kvs))))
    \<and> (snd (try_block L (Inr (JDict kvs)) init_locals) = None \<longrightarrow>
         (\<exists>m. build_metrics L now (Existing (Inr (JDict kvs))) = Inr m
            \<and> m ! 4 = u ''mongo_backup_last_failure{message='' @ [34, 34] @ u ''} 0''))
    \<and> \<not> truthy JNull \<and> \<not> truthy (JBool False) \<and> \<not> truthy (JInt 0) \<and> \<not> truthy (JStr [])"
proof -
  let ?kvs' = "filter (\<lambda>kv. fst kv \<noteq> u ''last_failure'') kvs"
  have s1: "stmt_last_success L (JDict ?kvs') s = stmt_last_success L (JDict kvs) s" for s
    by (simp add: stmt_last_success_def map_of_filter_other)
  have s2: "stmt_last_size L (JDict ?kvs') s = stmt_last_size L (JDict kvs) s" for s
    by (simp add: stmt_last_size_def map_of_filter_other)
  have s3: "stmt_total L (JDict ?kvs') s = stmt_total L (JDict kvs) s" for s
    by (simp add: stmt_total_def map_of_filter_other)
  have s4: "stmt_last_failure (JDict ?kvs') s = stmt_last_failure (JDict kvs) s" for s
    using assms by (simp add: stmt_last_failure_def map_of_filter_same)
  have s4': "stmt_last_failure (JDict kvs) s = Inr (s\<lparr>last_failure := JStr []\<rparr>)" for s
    using assms by (simp add: stmt_last_failure_def)
  have t: "try_block L (Inr (JDict ?kvs')) init_locals = try_block L (Inr (JDict kvs)) init_locals"
    by (simp only: try_block_def sum.case s1 s2 s3 s4)
  have a: "build_metrics L now (Existing (Inr (JDict kvs)))
      = build_metrics L now (Existing (Inr (JDict ?kvs')))"
    by (simp only: build_metrics_def read_state_def state_file.case t)
  have b: "snd (try_block L (Inr (JDict kvs)) init_locals) = None \<longrightarrow>
         (\<exists>m. build_metrics L now (Existing (Inr (JDict kvs))) = Inr m
            \<and> m ! 4 = u ''mongo_backup_last_failure{message='' @ [34, 34] @ u ''} 0'')"
    by (auto simp: try_block_def s4' build_metrics_def read_state_def format_metrics_def
        split: sum.splits)
  from a b show ?thesis by simp
qed

theorem falsy_last_failure_witness:
  "build_metrics sample_lib 0
      (Existing (Inr (JDict [(u ''total_backups'', JInt 1), (u ''last_failure'', JNull)])))
     = build_metrics sample_lib 0 (Existing (Inr (JDict [(u ''total_backups'', JInt 1)])))
   \<and> (\<exists>m. build_metrics sample_lib 0
      (Existing (Inr (JDict [(u ''total_backups'', JInt 1), (u ''last_failure'', JNull)])))
       = Inr m
     \<and> m ! 4 = u ''mongo_backup_last_failure{message='' @ [34, 34] @ u ''} 0'')
   \<and> (\<exists>m. build_metrics sample_lib 0 (Existing (Inr (JDict [(u ''last_failure'', JInt 0)])))
       = Inr m
     \<and> m ! 4 = u ''mongo_backup_last_failure{message='' @ [34, 34] @ u ''} 0'')"
proof -
  have k1: "map_of [(u ''total_backups'', JInt 1), (u ''last_failure'', JNull)]
      (u ''last_failure'') = Some JNull"
    by simp
  have k2: "map_of [(u ''last_failure'', JInt 0)] (u ''last_failure'') = Some (JInt 0)"
    by simp
  have f1: "\<not> truthy JNull" by simp
  have f2: "\<not> truthy (JInt 0)" by simp
  have t1: "snd (try_block sample_lib
      (Inr (JDict [(u ''total_backups'', JInt 1), (u ''last_failure'', JNull)])) init_locals)
      = None"
    by (simp add: try_block_def stmt_defs)
  have t2: "snd (try_block sample_lib (Inr (JDict [(u ''last_failure'', JInt 0)])) init_locals)
      = None"
    by (simp add: try_block_def stmt_defs)
  have e1: "filter (\<lambda>kv. fst kv \<noteq> u ''last_failure'')
      [(u ''total_backups'', JInt 1), (u ''last_failure'', JNull)] = [(u ''total_backups'', JInt 1)]"
    by simp
  from falsy_last_failure [OF k1 f1, of sample_lib 0, unfolded e1] t1
    falsy_last_failure [OF k2 f2, of sample_lib 0] t2
  show ?thesis
    by blast
qed

subsection \<open>Paths and methods\<close>

lemmas parse_defs =
  parse_request_def check_version_def parse_version_def startswith_def after_first_def
  isdigit_def int_of_digits_def

text \<open>A request line of three words that ends with \<open>HTTP/1.1\<close> is accepted.\<close>

lemma parse_request_http11:
  "parse_request (http11 command target) = Accepted command (reduce_slashes target)"
  by (simp add: http11_def parse_defs)

lemma handle_http11:
  "handle_one_request L now sf (http11 command target) =
     (if command \<noteq> u ''GET'' then Inr (Some (ErrorPage 501))
      else (case do_GET L now sf (reduce_slashes target) of
              Inl e \<Rightarrow> Inl e
            | Inr resp \<Rightarrow> Inr (Some resp)))"
proof -
  have "\<not> line_too_long (http11 command target)"
    by (simp add: http11_def)
  then show ?thesis
    by (simp add: handle_one_request_def parse_request_http11)
qed

text \<open>What \<open>parse_request\<close> can answer when the request line has a first word.\<close>

lemma parse_request_cases:
  assumes "words r \<noteq> []"
  shows "parse_request r = Refused 400 \<or> parse_request r = Refused 505
    \<or> parse_request r = Refused 431
    \<or> parse_request r = Accepted (hd (words r)) (reduce_slashes (words r ! 1))"
  using assms
  by (auto simp: parse_request_def check_version_def Let_def hd_conv_nth
      split: sum.splits option.splits if_splits)

lemma parse_request_Accepted:
  "parse_request r = Accepted c p \<Longrightarrow>
     words r \<noteq> [] \<and> c = hd (words r) \<and> p = reduce_slashes (words r ! 1)"
  by (auto simp: parse_request_def check_version_def Let_def hd_conv_nth
      split: sum.splits option.splits if_splits)

lemma do_GET_404: "do_GET L now sf path = Inr (ErrorPage 404) \<longleftrightarrow> path \<noteq> u ''/'' \<and> path \<noteq> u ''/metrics''"
  by (auto simp: do_GET_def split: sum.splits)

lemma reduce_slashes_metrics:
  "reduce_slashes (u ''/metrics'' @ sfx) = u ''/metrics'' @ sfx"
  by (simp add: reduce_slashes_def startswith_def)

text \<open>
  C2, as the spec states it, answers 404 to every request whose method is not GET. A
  POST of \<open>/metrics\<close> never reaches \<open>do_GET\<close>: the base class answers 501.
\<close>

theorem unsupported_method_counterexample:
  "handle_one_request sample_lib 0 Missing (http11 (u ''POST'') (u ''/metrics''))
     = Inr (Some (ErrorPage 501))"
  by (simp add: handle_one_request_def http11_def parse_defs reduce_slashes_def)

text \<open>
  C2, amended: the server responds with status 404 to the GET requests that the base
  class accepts and whose \<^verbatim>\<open>self.path\<close> is neither \<open>/\<close> nor \<open>/metrics\<close>, and to no
  other request. A request whose method is not GET is never answered 404: the base class
  answers 501 when it accepts the request line, and 400, 414, 431 or 505 when it refuses
  the request.
\<close>

theorem not_found_answer:
  "(handle_one_request L now sf r = Inr (Some (ErrorPage 404))
      \<longleftrightarrow> \<not> line_too_long r
        \<and> (\<exists>p. parse_request r = Accepted (u ''GET'') p \<and> p \<noteq> u ''/'' \<and> p \<noteq> u ''/metrics''))
   \<and> (\<not> line_too_long r \<and> parse_request r = Accepted c p \<and> c \<noteq> u ''GET''
        \<longrightarrow> handle_one_request L now sf r = Inr (Some (ErrorPage 501)))
   \<and> (words r \<noteq> [] \<and> hd (words r) \<noteq> u ''GET''
        \<longrightarrow> (\<exists>code. handle_one_request L now sf r = Inr (Some (ErrorPage code))
              \<and> (code = 400 \<or> code = 414 \<or> code = 431 \<or> code = 501 \<or> code = 505)))"
proof (intro conjI impI)
  show "handle_one_request L now sf r = Inr (Some (ErrorPage 404))
      \<longleftrightarrow> \<not> line_too_long r
        \<and> (\<exists>p. parse_request r = Accepted (u ''GET'') p \<and> p \<noteq> u ''/'' \<and> p \<noteq> u ''/metrics'')"
  proof (cases "line_too_long r")
    case True
    then show ?thesis by (simp add: handle_one_request_def)
  next
    case False
    show ?thesis
    proof (cases "parse_request r")
      case NoReply
      with False show ?thesis by (simp add: handle_one_request_def)
    next
      case (Refused code)
      then have "code = 400 \<or> code = 505 \<or> code = 431"
        by (auto simp: parse_request_def check_version_def Let_def
            split: sum.splits option.splits if_splits)
      with False Refused show ?thesis by (auto simp: handle_one_request_def)
    next
      case (Accepted c p)
      show ?thesis
      proof (cases "c = u ''GET''")
        case True
        with False Accepted do_GET_404 [of L now sf p] show ?thesis
          by (auto simp: handle_one_request_def split: sum.splits)
      next
        case ne: False
        with False Accepted show ?thesis by (auto simp: handle_one_request_def)
      qed
    qed
  qed
next
  assume "\<not> line_too_long r \<and> parse_request r = Accepted c p \<and> c \<noteq> u ''GET''"
  then show "handle_one_request L now sf r = Inr (Some (ErrorPage 501))"
    by (simp add: handle_one_request_def)
next
  assume a: "words r \<noteq> [] \<and> hd (words r) \<noteq> u ''GET''"
  then have "words r \<noteq> []" by simp
  from parse_request_cases [OF this] a
  show "\<exists>code. handle_one_request L now sf r = Inr (Some (ErrorPage code))
              \<and> (code = 400 \<or> code = 414 \<or> code = 431 \<or> code = 501 \<or> code = 505)"
    by (cases "line_too_long r") (auto simp: handle_one_request_def)
qed

theorem not_found_answer_witness:
  "handle_one_request sample_lib 0 Missing (http11 (u ''GET'') (u ''/nonexistent''))
     = Inr (Some (ErrorPage 404))
   \<and> handle_one_request sample_lib 0 Missing (http11 (u ''HEAD'') (u ''/''))
     = Inr (Some (ErrorPage 501))
   \<and> (\<exists>code. handle_one_request sample_lib 0 Missing
          \<lparr>line_too_long = False, words = [u ''POST'', u ''/metrics''],
           headers_refused = False\<rparr> = Inr (Some (ErrorPage code))
        \<and> (code = 400 \<or> code = 414 \<or> code = 431 \<or> code = 501 \<or> code = 505))"
proof -
  have l: "\<not> line_too_long (http11 c t)" for c t
    by (simp add: http11_def)
  have g: "parse_request (http11 (u ''GET'') (u ''/nonexistent''))
      = Accepted (u ''GET'') (u ''/nonexistent'')"
    by (simp add: parse_request_http11 reduce_slashes_def startswith_def)
  have h: "parse_request (http11 (u ''HEAD'') (u ''/'')) = Accepted (u ''HEAD'') (u ''/'')"
    by (simp add: parse_request_http11 reduce_slashes_def startswith_def)
  have 1: "handle_one_request sample_lib 0 Missing (http11 (u ''GET'') (u ''/nonexistent''))
     = Inr (Some (ErrorPage 404))"
    using not_found_answer [of sample_lib 0 Missing "http11 (u ''GET'') (u ''/nonexistent'')"]
      l g by simp
  have 2: "handle_one_request sample_lib 0 Missing (http11 (u ''HEAD'') (u ''/''))
     = Inr (Some (ErrorPage 501))"
    using not_found_answer [of sample_lib 0 Missing "http11 (u ''HEAD'') (u ''/'')"
        "u ''HEAD''" "u ''/''"] l h by simp
  have 3: "\<exists>code. handle_one_request sample_lib 0 Missing
          \<lparr>line_too_long = False, words = [u ''POST'', u ''/metrics''],
           headers_refused = False\<rparr> = Inr (Some (ErrorPage code))
        \<and> (code = 400 \<or> code = 414 \<or> code = 431 \<or> code = 501 \<or> code = 505)"
    using not_found_answer [of sample_lib 0 Missing
        "\<lparr>line_too_long = False, words = [u ''POST'', u ''/metrics''],
          headers_refused = False\<rparr>"]
    by simp
  from 1 2 3 show ?thesis by blast
qed

text \<open>
  C10, as stated, answers 404 to every GET whose request target differs from \<open>/\<close> or
  \<open>/metrics\<close> by a suffix such as a trailing slash. The target \<open>//\<close> is \<open>/\<close> with a
  trailing slash; the base class reduces it to \<open>/\<close> before \<open>do_GET\<close> reads
  \<^verbatim>\<open>self.path\<close>, and the request is answered 200 with the metrics.
\<close>

theorem double_slash_counterexample:
  "handle_one_request sample_lib 0 Missing (http11 (u ''GET'') (u ''//'')) =
     Inr (Some (Response 200
             [(u ''Content-Type'', u ''text/plain; version=0.0.4''),
              (u ''Content-Length'', u ''173'')]
             (u ''mongo_backup_last_success_timestamp 0'' @ [10]
              @ u ''mongo_backup_last_run_age_seconds 0'' @ [10]
              @ u ''mongo_backup_last_archive_bytes 0'' @ [10]
              @ u ''mongo_backup_total_runs 0'' @ [10]
              @ u ''mongo_backup_last_failure{message='' @ [34, 34] @ u ''} 0'')))"
  by (simp add: handle_one_request_def http11_def parse_defs reduce_slashes_def
      build_metrics_def read_state_def init_locals_def format_metrics_def
      do_GET_def utf8_char_def str_int_def digits.simps)

text \<open>
  C10, amended: path matching is equality of \<^verbatim>\<open>self.path\<close> with \<open>/\<close> and
  \<open>/metrics\<close>, where \<^verbatim>\<open>self.path\<close> is the request target after the base class has
  reduced two or more leading slashes to one. \<open>do_GET\<close> answers 404 to every other
  \<^verbatim>\<open>self.path\<close> and sends status 200 for these two alone; a GET request with the
  target \<open>t\<close> is answered 404 exactly when the reduced \<open>t\<close> is neither of the two; the
  target \<open>/metrics\<close> followed by anything (a query string, a slash) is not changed by
  the reduction and is answered 404.
\<close>

theorem exact_path_match:
  "(path \<noteq> u ''/'' \<and> path \<noteq> u ''/metrics'' \<longrightarrow> do_GET L now sf path = Inr (ErrorPage 404))
   \<and> (\<forall>resp. do_GET L now sf path = Inr resp \<and> status resp = 200
        \<longrightarrow> path = u ''/'' \<or> path = u ''/metrics'')
   \<and> (\<not> line_too_long r \<and> parse_request r = Accepted (u ''GET'') p
        \<longrightarrow> p = reduce_slashes (words r ! 1)
          \<and> (handle_one_request L now sf r = Inr (Some (ErrorPage 404))
               \<longleftrightarrow> p \<noteq> u ''/'' \<and> p \<noteq> u ''/metrics''))
   \<and> (handle_one_request L now sf (http11 (u ''GET'') t) = Inr (Some (ErrorPage 404))
        \<longleftrightarrow> reduce_slashes t \<noteq> u ''/'' \<and> reduce_slashes t \<noteq> u ''/metrics'')
   \<and> (sfx \<noteq> [] \<longrightarrow>
        handle_one_request L now sf (http11 (u ''GET'') (u ''/metrics'' @ sfx))
          = Inr (Some (ErrorPage 404)))"
proof (intro conjI impI allI)
  assume "path \<noteq> u ''/'' \<and> path \<noteq> u ''/metrics''"
  then show "do_GET L now sf path = Inr (ErrorPage 404)"
    by (simp add: do_GET_404)
next
  fix resp
  assume "do_GET L now sf path = Inr resp \<and> status resp = 200"
  then show "path = u ''/'' \<or> path = u ''/metrics''"
    by (auto simp: do_GET_def split: if_splits)
next
  assume a: "\<not> line_too_long r \<and> parse_request r = Accepted (u ''GET'') p"
  with parse_request_Accepted [of r "u ''GET''" p]
  show "p = reduce_slashes (words r ! 1)"
    by simp
  from a do_GET_404 [of L now sf p]
  show "handle_one_request L now sf r = Inr (Some (ErrorPage 404))
      \<longleftrightarrow> p \<noteq> u ''/'' \<and> p \<noteq> u ''/metrics''"
    by (auto simp: handle_one_request_def split: sum.splits)
next
  from do_GET_404 [of L now sf "reduce_slashes t"]
  show "handle_one_request L now sf (http11 (u ''GET'') t) = Inr (Some (ErrorPage 404))
      \<longleftrightarrow> reduce_slashes t \<noteq> u ''/'' \<and> reduce_slashes t \<noteq> u ''/metrics''"
    by (auto simp: handle_http11 split: sum.splits)
next
  assume "sfx \<noteq> []"
  then have d: "do_GET L now sf (u ''/metrics'' @ sfx) = Inr (ErrorPage 404)"
    by (simp add: do_GET_404)
  show "handle_one_request L now sf (http11 (u ''GET'') (u ''/metrics'' @ sfx))
          = Inr (Some (ErrorPage 404))"
    unfolding handle_http11 reduce_slashes_metrics d by simp
qed

theorem exact_path_match_witness:
  "handle_one_request sample_lib 0 Missing (http11 (u ''GET'') (u ''/metrics?x=1''))
     = Inr (Some (ErrorPage 404))
   \<and> handle_one_request sample_lib 0 Missing (http11 (u ''GET'') (u ''/metrics/''))
     = Inr (Some (ErrorPage 404))
   \<and> do_GET sample_lib 0 Missing (u ''/?x=1'') = Inr (ErrorPage 404)"
proof -
  have n: "u ''?x=1'' \<noteq> []" "u ''/'' \<noteq> []" "u ''/?x=1'' \<noteq> u ''/'' \<and> u ''/?x=1'' \<noteq> u ''/metrics''"
    by simp_all
  have e: "u ''/metrics'' @ u ''?x=1'' = u ''/metrics?x=1''" "u ''/metrics'' @ u ''/'' = u ''/metrics/''"
    by simp_all
  from exact_path_match [of "u ''/?x=1''" sample_lib 0 Missing _ _ _ "u ''?x=1''"]
    exact_path_match [of "u ''/?x=1''" sample_lib 0 Missing _ _ _ "u ''/''"]
  show ?thesis
    using n unfolding e by blast
qed

end
